theory Spec2Isabelle
  imports Complex_Main "HOL-Library.Multiset"
begin

section \<open>SSDHead (mmdet/models/anchor\_heads/ssd\_head.py)\<close>

text \<open>
  A shallow embedding of the anchor derivation and of the loss of \<open>SSDHead\<close>.
  Python integers are \<^typ>\<open>int\<close>; loss values are \<^typ>\<open>real\<close>; a raise is
  \<open>Inl\<close> of the exception. The products of line 98, 99, 107 and 108 with the float
  ratios of \<open>basesize_ratio_range\<close> are rounded by the machine: the rounded product
  is a parameter \<open>fmul\<close> of the size derivation, so that what is proved of it holds
  for every rounding.
\<close>

subsection \<open>Exceptions and Python primitives\<close>

datatype error =
    AssertionError string
  | ValueError
  | OverflowError
  | IndexError
  | ZeroDivisionError
  | RuntimeError
  | NameError

text \<open>\<open>int(x)\<close> of a float: truncation toward zero.\<close>

definition py_int :: "real \<Rightarrow> int" where
  "py_int x = (if 0 \<le> x then \<lfloor>x\<rfloor> else \<lceil>x\<rceil>)"

text \<open>
  \<open>range(start, stop, step)\<close>: the iteration for a positive and for a negative step;
  a zero step raises \<open>ValueError\<close>.
\<close>

function range_up :: "int \<Rightarrow> int \<Rightarrow> int \<Rightarrow> int list" where
  "range_up r stop step =
     (if 0 < step \<and> r < stop then r # range_up (r + step) stop step else [])"
  by pat_completeness auto
termination
  by (relation "measure (\<lambda>(r, stop, step). nat (stop - r))") auto

function range_down :: "int \<Rightarrow> int \<Rightarrow> int \<Rightarrow> int list" where
  "range_down r stop step =
     (if step < 0 \<and> stop < r then r # range_down (r + step) stop step else [])"
  by pat_completeness auto
termination
  by (relation "measure (\<lambda>(r, stop, step). nat (r - stop))") auto

declare range_up.simps [simp del] range_down.simps [simp del]

definition py_range :: "int \<Rightarrow> int \<Rightarrow> int \<Rightarrow> error + int list" where
  "py_range start stop step =
     (if step = 0 then Inl ValueError
      else if 0 < step then Inr (range_up start stop step)
      else Inr (range_down start stop step))"

text \<open>\<open>xs.insert(i, x)\<close> for \<open>i \<ge> 0\<close>: an index past the end appends.\<close>

definition py_insert :: "nat \<Rightarrow> 'a \<Rightarrow> 'a list \<Rightarrow> 'a list" where
  "py_insert i x xs = take i xs @ x # drop i xs"

text \<open>\<open>sum(...)\<close> of Python: a left fold from 0.\<close>

definition py_sum :: "real list \<Rightarrow> real" where
  "py_sum xs = foldl (+) 0 xs"

subsection \<open>Tensor operations used by the head\<close>

text \<open>A one-dimensional tensor is the list of its entries.\<close>

text \<open>\<open>t[inds]\<close> for an index tensor produced by \<open>nonzero()\<close> (always in range).\<close>

definition gather :: "'a list \<Rightarrow> nat list \<Rightarrow> 'a list" where
  "gather t inds = map (\<lambda>i. t ! i) inds"

text \<open>\<open>torch.index_select(t, 0, inds)\<close>: an index out of range raises.\<close>

definition index_select :: "'a list \<Rightarrow> nat list \<Rightarrow> error + 'a list" where
  "index_select t inds =
     (if list_all (\<lambda>i. i < length t) inds then Inr (map (\<lambda>i. t ! i) inds)
      else Inl IndexError)"

text \<open>
  \<open>t.topk(k)\<close>: the \<open>k\<close> largest entries, largest first; \<open>k\<close> outside
  \<open>0 .. len(t)\<close> raises.
\<close>

definition topk :: "int \<Rightarrow> real list \<Rightarrow> error + real list" where
  "topk k t =
     (if k < 0 \<or> int (length t) < k then Inl RuntimeError
      else Inr (take (nat k) (rev (sort t))))"

text \<open>\<open>t.mean()\<close>.\<close>

definition tensor_mean :: "real list \<Rightarrow> real" where
  "tensor_mean t = sum_list t / real (length t)"

subsection \<open>\<open>SSDHead.loss_single\<close>\<close>

text \<open>
  The per-anchor inputs of one image. \<open>labels\<close>, \<open>label_weights\<close> and the value of
  \<open>F.cross_entropy(cls_score, labels, reduction='none')\<close> are tensors of one shape
  \<open>[N]\<close>; they are kept together as one list of per-anchor entries.
\<close>

record anchor =
  ce :: real
  label :: int
  label_weight :: real

record train_cfg =
  neg_pos_ratio :: int
  smoothl1_beta :: real

definition loss_cls_all :: "anchor list \<Rightarrow> real list" where
  "loss_cls_all ancs = map (\<lambda>a. ce a * label_weight a) ancs"

definition pos_inds :: "anchor list \<Rightarrow> nat list" where
  "pos_inds ancs = filter (\<lambda>i. 0 < label (ancs ! i)) [0..<length ancs]"

definition neg_inds :: "anchor list \<Rightarrow> nat list" where
  "neg_inds ancs = filter (\<lambda>i. label (ancs ! i) = 0) [0..<length ancs]"

definition num_pos_samples :: "anchor list \<Rightarrow> int" where
  "num_pos_samples ancs = int (length (pos_inds ancs))"

definition num_neg_samples :: "train_cfg \<Rightarrow> anchor list \<Rightarrow> int" where
  "num_neg_samples cfg ancs =
     (let n = neg_pos_ratio cfg * num_pos_samples ancs
      in if int (length (neg_inds ancs)) < n then int (length (neg_inds ancs)) else n)"

text \<open>Line 165: the mined negatives \<open>topk_loss_cls_neg\<close>.\<close>

definition topk_loss_cls_neg :: "train_cfg \<Rightarrow> anchor list \<Rightarrow> error + real list" where
  "topk_loss_cls_neg cfg ancs =
     topk (num_neg_samples cfg ancs) (gather (loss_cls_all ancs) (neg_inds ancs))"

text \<open>
  \<open>loss_bbox\<close> is the value of the call of \<open>smooth_l1_loss\<close> (lines 173 to 178), a
  function of \<open>..losses\<close>. The result is the pair \<open>(loss_cls[None], loss_bbox)\<close>, each
  a tensor of one entry.
\<close>

definition loss_single ::
  "anchor list \<Rightarrow> real \<Rightarrow> int \<Rightarrow> train_cfg \<Rightarrow> error + (real list \<times> real list)" where
  "loss_single ancs loss_bbox num_total_samples cfg =
     (case topk_loss_cls_neg cfg ancs of
        Inl e \<Rightarrow> Inl e
      | Inr mined \<Rightarrow>
          if \<not> 0 < num_pos_samples ancs then Inl (AssertionError [])
          else if \<not> 0 < num_neg_samples cfg ancs then Inl (AssertionError [])
          else if \<not> 0 < num_total_samples then Inl (AssertionError [])
          else
            let loss_cls_pos = sum_list (gather (loss_cls_all ancs) (pos_inds ancs));
                loss_cls_neg = sum_list mined;
                loss_cls = (loss_cls_pos + loss_cls_neg) / real_of_int num_total_samples
            in Inr ([loss_cls], [loss_bbox]))"

subsection \<open>\<open>SSDHead.loss\<close> and \<open>SSDHead._balance_losses\<close>\<close>

text \<open>
  An entry of a prediction tensor: only whether it is finite matters to the check of
  lines 232 to 235.
\<close>

datatype fval = Finite real | PosInf | NegInf | NaN

fun isfinite :: "fval \<Rightarrow> bool" where
  "isfinite (Finite x) = True"
| "isfinite PosInf = False"
| "isfinite NegInf = False"
| "isfinite NaN = False"

text \<open>
  One image's rows of \<open>all_cls_scores\<close> and \<open>all_bbox_preds\<close>, flattened.
\<close>

record image =
  cls_score :: "fval list"
  bbox_pred :: "fval list"

text \<open>
  One image's rows of the tensors built from the result of \<open>anchor_target\<close>:
  the labels and label weights (with the cross entropy of the image's scores against
  the labels), and the value \<open>smooth_l1_loss\<close> takes on the image's box tensors.
\<close>

record image_targets =
  anchors :: "anchor list"
  bbox_loss :: real

text \<open>
  The attributes of the head that \<open>loss\<close> reads: the flag, the two learned scalars
  \<open>loss_weights[0]\<close> and \<open>loss_weights[1]\<close>, and \<open>len(self.anchor_generators)\<close>.
\<close>

record head =
  loss_balancing :: bool
  loss_weights :: "real \<times> real"
  num_anchor_generators :: nat

text \<open>
  A value of the returned dictionary: the list of per-image loss tensors, or the
  scalar that \<open>_balance_losses\<close> computes.
\<close>

datatype loss_value = PerImage "real list list" | Balanced real

record loss_dict =
  loss_cls :: loss_value
  loss_bbox :: loss_value

text \<open>
  Modelled from the spec: \<open>multi_apply\<close> (of \<open>mmdet.core\<close>) is not under src/.
  By sections 4.4 and 4.5 the loss is computed per image and yields the per-image
  classification losses and the per-image regression losses, in image order; the first
  image whose loss raises ends the computation.
\<close>

fun multi_apply :: "('a \<Rightarrow> error + ('b \<times> 'c)) \<Rightarrow> 'a list \<Rightarrow> error + ('b list \<times> 'c list)" where
  "multi_apply f [] = Inr ([], [])"
| "multi_apply f (x # xs) =
     (case f x of
        Inl e \<Rightarrow> Inl e
      | Inr (b, c) \<Rightarrow>
          (case multi_apply f xs of
             Inl e \<Rightarrow> Inl e
           | Inr (bs, cs) \<Rightarrow> Inr (b # bs, c # cs)))"

definition balance_losses ::
  "real \<times> real \<Rightarrow> real list list \<Rightarrow> real list list \<Rightarrow> real \<times> real" where
  "balance_losses w losses_cls losses_reg =
     (let loss_cls0 = py_sum (map tensor_mean losses_cls);
          loss_cls1 = exp (- fst w) * loss_cls0 + 0.5 * fst w;
          loss_reg0 = py_sum (map tensor_mean losses_reg);
          loss_reg1 = exp (- snd w) * loss_reg0 + 0.5 * snd w
      in (loss_cls1, loss_reg1))"

text \<open>
  \<open>loss\<close>, from the assertion of line 190 on. \<open>n_featmaps\<close> is \<open>len(cls_scores)\<close>;
  \<open>cls_reg_targets\<close> is the result of \<open>anchor_target\<close>, \<open>None\<close> or the per-image
  targets with \<open>num_total_pos\<close>. With balancing, line 249 binds the balanced pair to
  \<open>losses_cls, losses_reg\<close> and line 252 returns \<open>losses_cls\<close> and \<open>losses_bbox\<close>.
\<close>

definition loss ::
  "head \<Rightarrow> nat \<Rightarrow> image list \<Rightarrow> (image_targets list \<times> int) option \<Rightarrow> train_cfg
     \<Rightarrow> error + loss_dict option" where
  "loss h n_featmaps imgs cls_reg_targets cfg =
     (if n_featmaps \<noteq> num_anchor_generators h then Inl (AssertionError [])
      else if n_featmaps = 0 then Inl IndexError
      else case cls_reg_targets of
        None \<Rightarrow> Inr None
      | Some (tgts, num_total_pos) \<Rightarrow>
          if \<not> list_all (\<lambda>i. list_all isfinite (cls_score i)) imgs
          then Inl (AssertionError ''classification scores become infinite or NaN!'')
          else if \<not> list_all (\<lambda>i. list_all isfinite (bbox_pred i)) imgs
          then Inl (AssertionError ''bbox predications become infinite or NaN!'')
          else
            (case multi_apply
                    (\<lambda>t. loss_single (anchors t) (bbox_loss t) num_total_pos cfg) tgts of
               Inl e \<Rightarrow> Inl e
             | Inr (losses_cls, losses_bbox) \<Rightarrow>
                 if loss_balancing h
                 then (case balance_losses (loss_weights h) losses_cls losses_bbox of
                         (losses_cls', losses_reg) \<Rightarrow>
                           Inr (Some \<lparr>loss_cls = Balanced losses_cls',
                                      loss_bbox = PerImage losses_bbox\<rparr>))
                 else Inr (Some \<lparr>loss_cls = PerImage losses_cls,
                                  loss_bbox = PerImage losses_bbox\<rparr>)))"

text \<open>
  The balancing as section 4.5 words it, with the means taken across the images;
  for comparison with \<open>balance_losses\<close>.
\<close>

definition spec_balance_losses ::
  "real \<times> real \<Rightarrow> real list \<Rightarrow> real list \<Rightarrow> real \<times> real" where
  "spec_balance_losses w per_image_cls per_image_reg =
     (exp (- fst w) * (sum_list per_image_cls / real (length per_image_cls)) + 0.5 * fst w,
      exp (- snd w) * (sum_list per_image_reg / real (length per_image_reg)) + 0.5 * snd w)"

subsection \<open>\<open>SSDHead.__init__\<close>: sizes derived from \<open>basesize_ratio_range\<close>\<close>

text \<open>
  Lines 98 and 99: the two ratios as integer percentages, \<open>int(min_ratio * 100)\<close> and
  \<open>int(max_ratio * 100)\<close>. \<open>fmul x y\<close> is the float product of \<open>x\<close> and \<open>y\<close> as the
  machine rounds it.
\<close>

definition min_percent :: "(real \<Rightarrow> real \<Rightarrow> real) \<Rightarrow> real \<times> real \<Rightarrow> int" where
  "min_percent fmul basesize_ratio_range = py_int (fmul (fst basesize_ratio_range) 100)"

definition max_percent :: "(real \<Rightarrow> real \<Rightarrow> real) \<Rightarrow> real \<times> real \<Rightarrow> int" where
  "max_percent fmul basesize_ratio_range = py_int (fmul (snd basesize_ratio_range) 100)"

text \<open>
  Lines 100 and 101: \<open>int(np.floor(max_ratio - min_ratio) / (len(in_channels) - 2))\<close>.
  \<open>np.floor\<close> gives a numpy float, whose division by zero is \<open>inf\<close> or \<open>nan\<close> and
  does not raise; \<open>int\<close> of them raises \<open>OverflowError\<close> and \<open>ValueError\<close>.
\<close>

definition ssd_step :: "int \<Rightarrow> int \<Rightarrow> nat \<Rightarrow> error + int" where
  "ssd_step min_ratio max_ratio num_levels =
     (if int num_levels - 2 = 0
      then (if max_ratio - min_ratio = 0 then Inl ValueError else Inl OverflowError)
      else Inr (py_int (real_of_int (max_ratio - min_ratio) / real_of_int (int num_levels - 2))))"

text \<open>
  Lines 97 to 108, with \<open>num_levels = len(in_channels)\<close>: the lists \<open>min_sizes\<close> and
  \<open>max_sizes\<close>. The sizes of the walk are \<open>int\<close> of an integer divided by 100; the
  two entries put in front are \<open>int\<close> of the float product of \<open>input_size\<close> and the
  minimum ratio, halved for the first (halving a float is exact).
\<close>

definition derive_sizes ::
  "(real \<Rightarrow> real \<Rightarrow> real) \<Rightarrow> int \<Rightarrow> real \<times> real \<Rightarrow> nat \<Rightarrow> error + (int list \<times> int list)" where
  "derive_sizes fmul input_size basesize_ratio_range num_levels =
     (let min_ratio = min_percent fmul basesize_ratio_range;
          max_ratio = max_percent fmul basesize_ratio_range
      in case ssd_step min_ratio max_ratio num_levels of
           Inl e \<Rightarrow> Inl e
         | Inr step \<Rightarrow>
             (case py_range min_ratio (max_ratio + 1) step of
                Inl e \<Rightarrow> Inl e
              | Inr rs \<Rightarrow>
                  let min_sizes = map (\<lambda>r. py_int (real_of_int (input_size * r) / 100)) rs;
                      max_sizes =
                        map (\<lambda>r. py_int (real_of_int (input_size * (r + step)) / 100)) rs
                  in Inr (py_insert 0
                            (py_int (fmul (real_of_int input_size)
                                       (fst basesize_ratio_range) / 2))
                            min_sizes,
                          py_insert 0
                            (py_int (fmul (real_of_int input_size)
                                       (fst basesize_ratio_range)))
                            max_sizes)))"

subsection \<open>\<open>SSDHead.__init__\<close>: the base anchors of a level on the ratio path\<close>

text \<open>
  A base anchor is kept as the base size, the scale and the ratio it is generated
  from; the type of scales is left open.
\<close>

datatype 's base_anchor = BaseAnchor (anchor_size: int) (anchor_scale: 's) (anchor_ratio: real)

text \<open>
  Lines 117 to 119: \<open>ratios = [1.]\<close>, then \<open>ratios += [1 / r, r]\<close> for each \<open>r\<close> of
  \<open>anchor_ratios[k]\<close>; \<open>1 / 0\<close> raises.
\<close>

fun ratios_loop :: "real list \<Rightarrow> real list \<Rightarrow> error + real list" where
  "ratios_loop ratios [] = Inr ratios"
| "ratios_loop ratios (r # rs) =
     (if r = 0 then Inl ZeroDivisionError else ratios_loop (ratios @ [1 / r, r]) rs)"

definition level_ratios :: "real list \<Rightarrow> error + real list" where
  "level_ratios anchor_ratios_k = ratios_loop [1] anchor_ratios_k"

text \<open>
  Modelled from the spec: \<open>AnchorGenerator\<close> (of \<open>mmdet.core\<close>) is not under src/.
  By section 4.2 its base anchors are the \<open>scale_i * ratio_j\<close> combinations in
  scale-minor ordering: the ratios vary fastest, one group per scale.
\<close>

definition gen_base_anchors :: "int \<Rightarrow> 's list \<Rightarrow> real list \<Rightarrow> 's base_anchor list" where
  "gen_base_anchors base_size scales ratios =
     concat (map (\<lambda>s. map (\<lambda>r. BaseAnchor base_size s r) ratios) scales)"

text \<open>
  Lines 117 to 126 for one level, \<open>scales\<close> being the list built at line 116:
  the generator's base anchors are replaced by those at
  \<open>indices = list(range(len(ratios)))\<close> after \<open>indices.insert(1, len(indices))\<close>.
\<close>

definition level_base_anchors :: "int \<Rightarrow> 's list \<Rightarrow> real list \<Rightarrow> error + 's base_anchor list" where
  "level_base_anchors base_size scales anchor_ratios_k =
     (case level_ratios anchor_ratios_k of
        Inl e \<Rightarrow> Inl e
      | Inr ratios \<Rightarrow>
          let base_anchors = gen_base_anchors base_size scales ratios;
              indices = py_insert 1 (length ratios) [0..<length ratios]
          in index_select base_anchors indices)"

text \<open>
  The fix-up as section 4.2 words it, the last anchor of the cross product moved to
  index 1; for comparison with \<open>level_base_anchors\<close>.
\<close>

definition spec_move_last_to_index1 :: "'a list \<Rightarrow> 'a list" where
  "spec_move_last_to_index1 xs = py_insert 1 (last xs) (butlast xs)"

subsection \<open>\<open>SSDHead.__init__\<close>: explicit anchor heights and widths\<close>

text \<open>Lines 36 to 40.\<close>

definition num_anchors ::
  "real list list \<Rightarrow> real list list \<Rightarrow> real list list \<Rightarrow> error + nat list" where
  "num_anchors anchor_heights anchor_widths anchor_ratios =
     (if length anchor_heights \<noteq> 0
      then (if length anchor_heights = length anchor_widths
            then Inr (map length anchor_heights)
            else Inl (AssertionError []))
      else Inr (map (\<lambda>ratios. length ratios * 2 + 2) anchor_ratios))"

text \<open>
  Lines 43 to 76, \<open>for i in range(len(in_channels))\<close>: each pass reads
  \<open>num_anchors[i]\<close>. The result is the value \<open>i\<close> is left bound to, \<open>None\<close> when the
  loop body never ran. The layers that the loop builds are not represented.
\<close>

fun conv_loop :: "nat list \<Rightarrow> nat option \<Rightarrow> nat list \<Rightarrow> error + nat option" where
  "conv_loop n_anchors i [] = Inr i"
| "conv_loop n_anchors i (j # js) =
     (if j < length n_anchors then conv_loop n_anchors (Some j) js else Inl IndexError)"

text \<open>
  Lines 84 to 95, \<open>for k in range(len(anchor_strides))\<close>. The assertion of line 85
  reads \<open>anchor_widths[i]\<close> and \<open>anchor_heights[i]\<close>, with the \<open>i\<close> left by the loop of
  line 43. \<open>gen\<close> stands for the call of \<open>AnchorGenerator\<close> on the widths and heights of
  level \<open>k\<close>.
\<close>

fun explicit_levels ::
  "(real list \<Rightarrow> real list \<Rightarrow> error + 'g) \<Rightarrow> nat option \<Rightarrow> real list list \<Rightarrow> real list list
     \<Rightarrow> nat list \<Rightarrow> error + 'g list" where
  "explicit_levels gen i anchor_widths anchor_heights [] = Inr []"
| "explicit_levels gen i anchor_widths anchor_heights (k # ks) =
     (case i of
        None \<Rightarrow> Inl NameError
      | Some i' \<Rightarrow>
          if \<not> (i' < length anchor_widths \<and> i' < length anchor_heights) then Inl IndexError
          else if length (anchor_widths ! i') \<noteq> length (anchor_heights ! i')
          then Inl (AssertionError [])
          else if \<not> (k < length anchor_widths \<and> k < length anchor_heights) then Inl IndexError
          else (case gen (anchor_widths ! k) (anchor_heights ! k) of
                  Inl e \<Rightarrow> Inl e
                | Inr g \<Rightarrow>
                    (case explicit_levels gen i anchor_widths anchor_heights ks of
                       Inl e \<Rightarrow> Inl e
                     | Inr gs \<Rightarrow> Inr (g # gs))))"

text \<open>
  The construction up to line 95: the anchor counts, the loop over \<open>in_channels\<close>,
  and the anchor generators of the explicit path. \<open>None\<close> stands for the ratio path
  (lines 96 to 127), taken when \<open>anchor_heights\<close> is empty.
\<close>

definition init_explicit ::
  "(real list \<Rightarrow> real list \<Rightarrow> error + 'g) \<Rightarrow> nat list \<Rightarrow> nat list \<Rightarrow> real list list
     \<Rightarrow> real list list \<Rightarrow> real list list \<Rightarrow> error + 'g list option" where
  "init_explicit gen in_channels anchor_strides anchor_heights anchor_widths anchor_ratios =
     (case num_anchors anchor_heights anchor_widths anchor_ratios of
        Inl e \<Rightarrow> Inl e
      | Inr n_anchors \<Rightarrow>
          (case conv_loop n_anchors None [0..<length in_channels] of
             Inl e \<Rightarrow> Inl e
           | Inr i \<Rightarrow>
               if length anchor_heights \<noteq> 0
               then (if length anchor_heights \<noteq> length anchor_widths
                     then Inl (AssertionError [])
                     else (case explicit_levels gen i anchor_widths anchor_heights
                                  [0..<length anchor_strides] of
                             Inl e \<Rightarrow> Inl e
                           | Inr gs \<Rightarrow> Inr (Some gs)))
               else Inr None))"

text \<open>
  Modelled from the spec: \<open>AnchorGenerator\<close> is not under src/. By section 4.2, on the
  explicit path a level zips its widths with its heights into base anchors, in the
  given order.
\<close>

definition zip_generator :: "real list \<Rightarrow> real list \<Rightarrow> error + (real \<times> real) list" where
  "zip_generator widths heights = Inr (zip widths heights)"

section \<open>Concrete inputs\<close>

definition toy_cfg :: train_cfg where
  "toy_cfg = \<lparr>neg_pos_ratio = 3, smoothl1_beta = 1\<rparr>"

definition toy_image :: "anchor list" where
  "toy_image =
     [\<lparr>ce = 2, label = 1, label_weight = 1\<rparr>,
      \<lparr>ce = 1/2, label = 0, label_weight = 1\<rparr>,
      \<lparr>ce = 3, label = 0, label_weight = 1\<rparr>,
      \<lparr>ce = 1, label = 0, label_weight = 1\<rparr>,
      \<lparr>ce = 4, label = 0, label_weight = 1\<rparr>,
      \<lparr>ce = 1/4, label = 0, label_weight = 1\<rparr>]"

definition no_negatives_image :: "anchor list" where
  "no_negatives_image =
     [\<lparr>ce = 2, label = 1, label_weight = 1\<rparr>,
      \<lparr>ce = 1, label = 2, label_weight = 1\<rparr>]"

definition balancing_head :: head where
  "balancing_head = \<lparr>loss_balancing = True, loss_weights = (0, 0), num_anchor_generators = 1\<rparr>"

definition finite_images :: "image list" where
  "finite_images = [\<lparr>cls_score = [Finite 0, Finite 1], bbox_pred = [Finite 0]\<rparr>,
                    \<lparr>cls_score = [Finite 1, Finite 0], bbox_pred = [Finite 0]\<rparr>]"

definition two_targets :: "image_targets list" where
  "two_targets =
    [\<lparr>anchors = [\<lparr>ce = 1, label = 1, label_weight = 1\<rparr>, \<lparr>ce = 1, label = 0, label_weight = 1\<rparr>],
      bbox_loss = 1/2\<rparr>,
     \<lparr>anchors = [\<lparr>ce = 4, label = 1, label_weight = 1\<rparr>, \<lparr>ce = 2, label = 0, label_weight = 1\<rparr>],
      bbox_loss = 3/2\<rparr>]"

definition nan_images :: "image list" where
  "nan_images = [\<lparr>cls_score = [Finite 0, NaN], bbox_pred = [Finite 0]\<rparr>,
                 \<lparr>cls_score = [Finite 1, Finite 0], bbox_pred = [Finite 0]\<rparr>]"

definition background_targets :: "image_targets list" where
  "background_targets =
    [\<lparr>anchors = [\<lparr>ce = 1, label = 1, label_weight = 1\<rparr>, \<lparr>ce = 1, label = 0, label_weight = 1\<rparr>],
      bbox_loss = 1/2\<rparr>,
     \<lparr>anchors = [\<lparr>ce = 4, label = 0, label_weight = 1\<rparr>, \<lparr>ce = 2, label = 0, label_weight = 1\<rparr>],
      bbox_loss = 0\<rparr>]"

text \<open>
  The float product at the concrete inputs below: where the ratios are dyadic fractions
  the products are representable and nothing is rounded; at the other inputs the
  rounding error is far too small to change the integer that \<open>int\<close> takes of the
  product.
\<close>

definition exact_product :: "real \<Rightarrow> real \<Rightarrow> real" where
  "exact_product x y = x * y"

section \<open>Properties\<close>

subsection \<open>Hard negative mining and the per-image loss\<close>

lemma gather_filter_nth:
  "gather (map f xs) (filter (\<lambda>i. P (xs ! i)) [0..<length xs]) = map f (filter P xs)"
proof -
  have "filter P xs = filter P (map (\<lambda>i. xs ! i) [0..<length xs])"
    by (simp add: map_nth)
  also have "\<dots> = map (\<lambda>i. xs ! i) (filter (\<lambda>i. P (xs ! i)) [0..<length xs])"
    by (simp add: filter_map comp_def)
  finally have "map f (filter P xs) = map (\<lambda>i. f (xs ! i)) (filter (\<lambda>i. P (xs ! i)) [0..<length xs])"
    by (simp add: comp_def)
  moreover have "gather (map f xs) (filter (\<lambda>i. P (xs ! i)) [0..<length xs])
      = map (\<lambda>i. f (xs ! i)) (filter (\<lambda>i. P (xs ! i)) [0..<length xs])"
    unfolding gather_def by (rule map_cong) auto
  ultimately show ?thesis by simp
qed

lemma pos_losses: "gather (loss_cls_all ancs) (pos_inds ancs)
   = map (\<lambda>a. ce a * label_weight a) (filter (\<lambda>a. 0 < label a) ancs)"
  unfolding loss_cls_all_def pos_inds_def by (rule gather_filter_nth)

lemma neg_losses: "gather (loss_cls_all ancs) (neg_inds ancs)
   = map (\<lambda>a. ce a * label_weight a) (filter (\<lambda>a. label a = 0) ancs)"
  unfolding loss_cls_all_def neg_inds_def by (rule gather_filter_nth)

lemma length_pos_inds: "length (pos_inds ancs) = length (filter (\<lambda>a. 0 < label a) ancs)"
  using arg_cong [OF pos_losses, of length ancs] by (simp add: gather_def)

lemma length_neg_inds: "length (neg_inds ancs) = length (filter (\<lambda>a. label a = 0) ancs)"
  using arg_cong [OF neg_losses, of length ancs] by (simp add: gather_def)

lemma topk_largest:
  assumes "0 \<le> k" "k \<le> int (length t)"
  shows "\<exists>ys. topk k t = Inr ys \<and> int (length ys) = k \<and> sorted (rev ys)
          \<and> mset ys \<subseteq># mset t
          \<and> (\<forall>x \<in># mset ys. \<forall>y \<in># mset t - mset ys. y \<le> x)"
proof -
  let ?s = "rev (sort t)"
  let ?ys = "take (nat k) ?s"
  let ?zs = "drop (nat k) ?s"
  have split: "?s = ?ys @ ?zs" by simp
  have tk: "topk k t = Inr ?ys" using assms by (simp add: topk_def)
  have len: "int (length ?ys) = k" using assms by simp
  have "sorted (rev ?s)" by simp
  then have "sorted (rev ?zs @ rev ?ys)" by (metis rev_append split)
  then have srt: "sorted (rev ?ys)" and ord: "\<forall>y\<in>set ?zs. \<forall>x\<in>set ?ys. y \<le> x"
    by (auto simp: sorted_append)
  have "mset t = mset ?s" by simp
  also have "\<dots> = mset ?ys + mset ?zs" by (metis split mset_append)
  finally have ms: "mset t = mset ?ys + mset ?zs" .
  then have sub: "mset ?ys \<subseteq># mset t" and rest: "mset t - mset ?ys = mset ?zs"
    by simp_all
  have top: "\<forall>x \<in># mset ?ys. \<forall>y \<in># mset t - mset ?ys. y \<le> x"
    using ord by (simp add: rest)
  show ?thesis using tk len srt sub top by blast
qed

lemma num_neg_samples_eq:
  "num_neg_samples cfg ancs =
     min (neg_pos_ratio cfg * int (length (filter (\<lambda>a. 0 < label a) ancs)))
         (int (length (filter (\<lambda>a. label a = 0) ancs)))"
  by (simp add: num_neg_samples_def num_pos_samples_def length_pos_inds length_neg_inds
      Let_def min_def)

lemma num_neg_samples_range:
  assumes "0 \<le> neg_pos_ratio cfg"
  shows "0 \<le> num_neg_samples cfg ancs"
    and "num_neg_samples cfg ancs \<le> int (length (gather (loss_cls_all ancs) (neg_inds ancs)))"
  using assms by (simp_all add: num_neg_samples_eq neg_losses)

lemma mined_length:
  assumes "topk_loss_cls_neg cfg ancs = Inr mined"
  shows "int (length mined) = num_neg_samples cfg ancs"
  using assms unfolding topk_loss_cls_neg_def topk_def
  by (auto split: if_splits)

lemma loss_single_cases:
  "loss_single ancs lb nts cfg =
     (case topk_loss_cls_neg cfg ancs of
        Inl e \<Rightarrow> Inl e
      | Inr mined \<Rightarrow>
          if filter (\<lambda>a. 0 < label a) ancs = [] \<or> mined = [] \<or> nts \<le> 0
          then Inl (AssertionError [])
          else Inr ([(sum_list (map (\<lambda>a. ce a * label_weight a)
                                 (filter (\<lambda>a. 0 < label a) ancs))
                      + sum_list mined) / real_of_int nts], [lb]))"
proof (cases "topk_loss_cls_neg cfg ancs")
  case (Inl e)
  then show ?thesis by (simp add: loss_single_def)
next
  case (Inr mined)
  have a: "0 < num_pos_samples ancs \<longleftrightarrow> filter (\<lambda>a. 0 < label a) ancs \<noteq> []"
    by (simp add: num_pos_samples_def length_pos_inds)
  have b: "0 < num_neg_samples cfg ancs \<longleftrightarrow> mined \<noteq> []"
    using mined_length [OF Inr] by (cases mined) auto
  show ?thesis
    using Inr by (simp add: loss_single_def a b pos_losses Let_def)
qed

text \<open>
  C3. For a non-negative \<open>neg_pos_ratio\<close> (a negative one makes \<open>topk\<close> raise), the
  mining of line 165 succeeds on every image; the number of mined negatives is
  \<open>min(neg_pos_ratio * num_pos, count of negatives)\<close>, where the positives are the
  anchors with \<open>label > 0\<close> and the negatives those with \<open>label == 0\<close>; the mined
  losses are taken from the weighted cross-entropy losses of the negatives, largest
  first, and no negative left out has a larger loss than a mined one.
\<close>

theorem hard_negative_mining:
  assumes "0 \<le> neg_pos_ratio cfg"
  shows "\<exists>mined. topk_loss_cls_neg cfg ancs = Inr mined
      \<and> int (length mined) =
          min (neg_pos_ratio cfg * int (length (filter (\<lambda>a. 0 < label a) ancs)))
              (int (length (filter (\<lambda>a. label a = 0) ancs)))
      \<and> sorted (rev mined)
      \<and> mset mined \<subseteq>#
          mset (map (\<lambda>a. ce a * label_weight a) (filter (\<lambda>a. label a = 0) ancs))
      \<and> (\<forall>x \<in># mset mined.
           \<forall>y \<in># mset (map (\<lambda>a. ce a * label_weight a) (filter (\<lambda>a. label a = 0) ancs))
                   - mset mined. y \<le> x)"
  using topk_largest [OF num_neg_samples_range [OF assms], of ancs]
  unfolding topk_loss_cls_neg_def neg_losses num_neg_samples_eq by simp

lemma toy_mined: "topk_loss_cls_neg toy_cfg toy_image = Inr [4, 3, 1]"
  by (simp add: topk_loss_cls_neg_def topk_def neg_losses num_neg_samples_eq
      toy_cfg_def toy_image_def)

theorem hard_negative_mining_witness:
  "0 \<le> neg_pos_ratio toy_cfg
   \<and> topk_loss_cls_neg toy_cfg toy_image = Inr [4, 3, 1]
   \<and> (\<exists>mined. topk_loss_cls_neg toy_cfg toy_image = Inr mined
      \<and> int (length mined) =
          min (neg_pos_ratio toy_cfg * int (length (filter (\<lambda>a. 0 < label a) toy_image)))
              (int (length (filter (\<lambda>a. label a = 0) toy_image)))
      \<and> sorted (rev mined)
      \<and> mset mined \<subseteq>#
          mset (map (\<lambda>a. ce a * label_weight a) (filter (\<lambda>a. label a = 0) toy_image))
      \<and> (\<forall>x \<in># mset mined.
           \<forall>y \<in># mset (map (\<lambda>a. ce a * label_weight a)
                           (filter (\<lambda>a. label a = 0) toy_image))
                   - mset mined. y \<le> x))"
proof -
  have h: "0 \<le> neg_pos_ratio toy_cfg" by (simp add: toy_cfg_def)
  show ?thesis
    using h toy_mined hard_negative_mining [OF h, of toy_image] by (intro conjI)
qed

text \<open>
  C4. For an image with at least one positive anchor: whenever \<open>loss_single\<close> returns,
  its classification loss is the sum of the positive anchors' losses plus the sum of
  the mined negatives' losses, divided by \<open>num_total_samples\<close>; and it does return this
  value whenever the mined-negative count and \<open>num_total_samples\<close> are positive.
\<close>

theorem loss_cls_normalized:
  assumes "filter (\<lambda>a. 0 < label a) ancs \<noteq> []"
  shows "(0 < num_neg_samples cfg ancs \<and> 0 < nts \<longrightarrow>
            (\<exists>mined. topk_loss_cls_neg cfg ancs = Inr mined \<and>
               loss_single ancs lb nts cfg =
                 Inr ([(sum_list (map (\<lambda>a. ce a * label_weight a)
                                    (filter (\<lambda>a. 0 < label a) ancs))
                        + sum_list mined) / real_of_int nts], [lb])))
       \<and> (\<forall>r. loss_single ancs lb nts cfg = Inr r \<longrightarrow>
            (\<exists>mined. topk_loss_cls_neg cfg ancs = Inr mined \<and>
               r = ([(sum_list (map (\<lambda>a. ce a * label_weight a)
                                   (filter (\<lambda>a. 0 < label a) ancs))
                       + sum_list mined) / real_of_int nts], [lb])))"
proof (intro conjI impI allI)
  assume pre: "0 < num_neg_samples cfg ancs \<and> 0 < nts"
  then have "0 \<le> num_neg_samples cfg ancs" by simp
  moreover have "num_neg_samples cfg ancs \<le> int (length (gather (loss_cls_all ancs) (neg_inds ancs)))"
    by (simp add: num_neg_samples_eq neg_losses)
  ultimately obtain mined where m: "topk_loss_cls_neg cfg ancs = Inr mined"
    unfolding topk_loss_cls_neg_def topk_def by auto
  then have "mined \<noteq> []" using mined_length [OF m] pre by auto
  then show "\<exists>mined. topk_loss_cls_neg cfg ancs = Inr mined \<and>
               loss_single ancs lb nts cfg =
                 Inr ([(sum_list (map (\<lambda>a. ce a * label_weight a)
                                    (filter (\<lambda>a. 0 < label a) ancs))
                        + sum_list mined) / real_of_int nts], [lb])"
    using m pre assms by (simp add: loss_single_cases)
next
  fix r
  assume "loss_single ancs lb nts cfg = Inr r"
  then show "\<exists>mined. topk_loss_cls_neg cfg ancs = Inr mined \<and>
               r = ([(sum_list (map (\<lambda>a. ce a * label_weight a)
                                   (filter (\<lambda>a. 0 < label a) ancs))
                       + sum_list mined) / real_of_int nts], [lb])"
    by (auto simp: loss_single_cases split: sum.splits if_splits)
qed

theorem loss_cls_normalized_witness:
  "filter (\<lambda>a. 0 < label a) toy_image \<noteq> []
   \<and> 0 < num_neg_samples toy_cfg toy_image
   \<and> loss_single toy_image 0 10 toy_cfg = Inr ([1], [0])"
proof -
  have h: "filter (\<lambda>a. 0 < label a) toy_image \<noteq> []" by (simp add: toy_image_def)
  have n: "0 < num_neg_samples toy_cfg toy_image"
    by (simp add: num_neg_samples_eq toy_cfg_def toy_image_def)
  have "\<exists>mined. topk_loss_cls_neg toy_cfg toy_image = Inr mined \<and>
          loss_single toy_image 0 10 toy_cfg =
            Inr ([(sum_list (map (\<lambda>a. ce a * label_weight a)
                               (filter (\<lambda>a. 0 < label a) toy_image))
                   + sum_list mined) / real_of_int 10], [0])"
    using loss_cls_normalized [OF h, of toy_cfg 10 0] n by simp
  then have "loss_single toy_image 0 10 toy_cfg = Inr ([1], [0])"
    by (simp add: toy_mined) (simp add: toy_image_def)
  with h n show ?thesis by simp
qed

text \<open>
  C10. With a non-negative \<open>neg_pos_ratio\<close>: when no anchor has \<open>label == 0\<close> (the
  mined negatives are then empty) or \<open>num_total_samples\<close> is zero, \<open>loss_single\<close>
  raises an \<open>AssertionError\<close>, with or without positive anchors; and it returns a value
  exactly when there is a positive anchor, a mined negative and a positive
  \<open>num_total_samples\<close>, all three at once.
\<close>

theorem loss_single_requires:
  assumes "0 \<le> neg_pos_ratio cfg"
  shows "(filter (\<lambda>a. label a = 0) ancs = [] \<or> nts = 0 \<longrightarrow>
            loss_single ancs lb nts cfg = Inl (AssertionError []))
       \<and> (filter (\<lambda>a. label a = 0) ancs = [] \<longrightarrow> topk_loss_cls_neg cfg ancs = Inr [])
       \<and> ((\<exists>r. loss_single ancs lb nts cfg = Inr r) \<longleftrightarrow>
            filter (\<lambda>a. 0 < label a) ancs \<noteq> []
            \<and> (\<exists>mined. topk_loss_cls_neg cfg ancs = Inr mined \<and> mined \<noteq> [])
            \<and> 0 < nts)"
proof -
  obtain mined where m: "topk_loss_cls_neg cfg ancs = Inr mined"
    and len: "int (length mined) =
          min (neg_pos_ratio cfg * int (length (filter (\<lambda>a. 0 < label a) ancs)))
              (int (length (filter (\<lambda>a. label a = 0) ancs)))"
    using topk_largest [OF num_neg_samples_range [OF assms], of ancs]
    unfolding topk_loss_cls_neg_def neg_losses num_neg_samples_eq by auto
  have none: "mined = []" if "filter (\<lambda>a. label a = 0) ancs = []"
  proof -
    have "int (length mined) \<le> 0" using len that by simp
    then show ?thesis by simp
  qed
  show ?thesis
    using m none by (auto simp: loss_single_cases)
qed

theorem loss_single_requires_witness:
  "0 \<le> neg_pos_ratio toy_cfg
   \<and> filter (\<lambda>a. 0 < label a) no_negatives_image \<noteq> []
   \<and> filter (\<lambda>a. label a = 0) no_negatives_image = []
   \<and> loss_single no_negatives_image 0 2 toy_cfg = Inl (AssertionError [])
   \<and> filter (\<lambda>a. 0 < label a) toy_image \<noteq> []
   \<and> loss_single toy_image 0 0 toy_cfg = Inl (AssertionError [])"
proof -
  have h: "0 \<le> neg_pos_ratio toy_cfg" by (simp add: toy_cfg_def)
  have p: "filter (\<lambda>a. 0 < label a) no_negatives_image \<noteq> []"
    and n: "filter (\<lambda>a. label a = 0) no_negatives_image = []"
    by (simp_all add: no_negatives_image_def)
  have q: "filter (\<lambda>a. 0 < label a) toy_image \<noteq> []" by (simp add: toy_image_def)
  have "loss_single no_negatives_image 0 2 toy_cfg = Inl (AssertionError [])"
    using loss_single_requires [OF h, of no_negatives_image 2 0] n by simp
  moreover have "loss_single toy_image 0 0 toy_cfg = Inl (AssertionError [])"
    using loss_single_requires [OF h, of toy_image 0 0] by simp
  ultimately show ?thesis using h p n q by simp
qed

subsection \<open>The batch loss and the balancing\<close>

lemma py_sum_eq: "py_sum xs = sum_list xs"
proof -
  have "foldl (+) a xs = a + sum_list xs" for a :: real
    by (induction xs arbitrary: a) simp_all
  then show ?thesis by (simp add: py_sum_def)
qed

lemma loss_single_shape:
  assumes "loss_single ancs lb nts cfg = Inr (c, b)"
  shows "length c = 1 \<and> b = [lb]"
  using assms by (auto simp: loss_single_cases split: sum.splits if_splits)

lemma multi_apply_singletons:
  assumes "multi_apply (\<lambda>t. loss_single (anchors t) (bbox_loss t) n cfg) tgts = Inr (cs, bs)"
  shows "list_all (\<lambda>c. length c = 1) cs \<and> bs = map (\<lambda>t. [bbox_loss t]) tgts"
  using assms
proof (induction tgts arbitrary: cs bs)
  case Nil
  then show ?case by simp
next
  case (Cons t tgts)
  then show ?case
    by (auto split: sum.splits prod.splits dest: loss_single_shape)
qed

lemma sum_means_singletons:
  "list_all (\<lambda>c. length c = 1) cs \<Longrightarrow> sum_list (map tensor_mean cs) = sum_list (concat cs)"
proof (induction cs)
  case Nil
  then show ?case by simp
next
  case (Cons c cs)
  then obtain x where "c = [x]" by (cases c) auto
  with Cons show ?case by (simp add: tensor_mean_def)
qed

text \<open>
  C1. With loss balancing on, a matching positive number of feature maps, finite
  predictions and per-image losses \<open>cs\<close> and \<open>bs\<close>: \<open>_balance_losses\<close> computes
  \<open>exp(-w_cls) * S_cls + 0.5 * w_cls\<close> and \<open>exp(-w_reg) * S_reg + 0.5 * w_reg\<close>, where
  \<open>S_cls\<close> and \<open>S_reg\<close> are the sums over the images of the per-image losses (the sum
  of the per-image means, each tensor having one entry), and the batch loss returns a
  dictionary whose classification term is the first of the two.
\<close>

theorem balanced_classification_term:
  assumes "loss_balancing h" and "n = num_anchor_generators h" and "0 < n"
    and "list_all (\<lambda>i. list_all isfinite (cls_score i)) imgs"
    and "list_all (\<lambda>i. list_all isfinite (bbox_pred i)) imgs"
    and "multi_apply (\<lambda>t. loss_single (anchors t) (bbox_loss t) ntp cfg) tgts = Inr (cs, bs)"
  shows "balance_losses (loss_weights h) cs bs =
           (exp (- fst (loss_weights h)) * sum_list (concat cs) + 0.5 * fst (loss_weights h),
            exp (- snd (loss_weights h)) * sum_list (concat bs) + 0.5 * snd (loss_weights h))
       \<and> (\<exists>d. loss h n imgs (Some (tgts, ntp)) cfg = Inr (Some d)
            \<and> loss_cls d =
                Balanced (exp (- fst (loss_weights h)) * sum_list (concat cs)
                          + 0.5 * fst (loss_weights h)))"
proof -
  from multi_apply_singletons [OF assms(6)]
  have c1: "list_all (\<lambda>c. length c = 1) cs" and b1: "list_all (\<lambda>c. length c = 1) bs"
    by (simp_all add: list_all_iff)
  have bal: "balance_losses (loss_weights h) cs bs =
           (exp (- fst (loss_weights h)) * sum_list (concat cs) + 0.5 * fst (loss_weights h),
            exp (- snd (loss_weights h)) * sum_list (concat bs) + 0.5 * snd (loss_weights h))"
    by (simp add: balance_losses_def py_sum_eq sum_means_singletons [OF c1]
        sum_means_singletons [OF b1])
  have "loss h n imgs (Some (tgts, ntp)) cfg =
      Inr (Some \<lparr>loss_cls = Balanced (fst (balance_losses (loss_weights h) cs bs)),
                 loss_bbox = PerImage bs\<rparr>)"
    using assms by (simp add: loss_def split: prod.splits)
  then show ?thesis using bal by simp
qed

lemma balancing_run:
  "multi_apply (\<lambda>t. loss_single (anchors t) (bbox_loss t) 2 toy_cfg) two_targets
     = Inr ([[1], [3]], [[1/2], [3/2]])"
  by (simp add: two_targets_def toy_cfg_def loss_single_cases topk_loss_cls_neg_def topk_def
      neg_losses num_neg_samples_eq)

theorem balanced_classification_term_witness:
  "loss_balancing balancing_head \<and> 1 = num_anchor_generators balancing_head \<and> (0::nat) < 1
   \<and> list_all (\<lambda>i. list_all isfinite (cls_score i)) finite_images
   \<and> list_all (\<lambda>i. list_all isfinite (bbox_pred i)) finite_images
   \<and> multi_apply (\<lambda>t. loss_single (anchors t) (bbox_loss t) 2 toy_cfg) two_targets
        = Inr ([[1], [3]], [[1/2], [3/2]])
   \<and> balance_losses (loss_weights balancing_head) [[1], [3]] [[1/2], [3/2]] = (4, 2)
   \<and> (\<exists>d. loss balancing_head 1 finite_images (Some (two_targets, 2)) toy_cfg = Inr (Some d)
         \<and> loss_cls d = Balanced 4)"
proof -
  have a: "loss_balancing balancing_head" "1 = num_anchor_generators balancing_head" "(0::nat) < 1"
    by (simp_all add: balancing_head_def)
  have f: "list_all (\<lambda>i. list_all isfinite (cls_score i)) finite_images"
    "list_all (\<lambda>i. list_all isfinite (bbox_pred i)) finite_images"
    by (simp_all add: finite_images_def)
  have w: "loss_weights balancing_head = (0, 0)" by (simp add: balancing_head_def)
  show ?thesis
    using balanced_classification_term [OF a f balancing_run] a f balancing_run
    by (simp add: w)
qed

theorem balanced_mean_counterexample:
  "loss balancing_head 1 finite_images (Some (two_targets, 2)) toy_cfg
     = Inr (Some \<lparr>loss_cls = Balanced 4, loss_bbox = PerImage [[1/2], [3/2]]\<rparr>)
   \<and> spec_balance_losses (loss_weights balancing_head) [1, 3] [1/2, 3/2] = (2, 1)
   \<and> Balanced 4 \<noteq> Balanced (fst (spec_balance_losses (loss_weights balancing_head) [1, 3] [1/2, 3/2]))
   \<and> PerImage [[1/2], [3/2]]
       \<noteq> Balanced (snd (spec_balance_losses (loss_weights balancing_head) [1, 3] [1/2, 3/2]))"
proof -
  have w: "loss_weights balancing_head = (0, 0)" by (simp add: balancing_head_def)
  have "loss balancing_head 1 finite_images (Some (two_targets, 2)) toy_cfg
     = Inr (Some \<lparr>loss_cls = Balanced 4, loss_bbox = PerImage [[1/2], [3/2]]\<rparr>)"
    by (simp add: loss_def balancing_run balancing_head_def finite_images_def
        balance_losses_def py_sum_def tensor_mean_def)
  moreover have "spec_balance_losses (loss_weights balancing_head) [1, 3] [1/2, 3/2] = (2, 1)"
    by (simp add: spec_balance_losses_def w)
  ultimately show ?thesis by simp
qed

lemma loss_single_errors:
  assumes "loss_single ancs lb nts cfg = Inl e"
  shows "e = AssertionError [] \<or> e = RuntimeError"
  using assms
  by (auto simp: loss_single_cases topk_loss_cls_neg_def topk_def split: sum.splits if_splits)

lemma multi_apply_error_source:
  "multi_apply f xs = Inl e \<Longrightarrow> \<exists>x \<in> set xs. f x = Inl e"
  by (induction xs) (auto split: sum.splits prod.splits)

text \<open>
  C8. With a positive number of feature maps equal to the number of anchor generators:
  when the aggregated scores or box predictions hold a non-finite entry, the batch loss
  raises an \<open>AssertionError\<close> with a message, the same for all targets and
  configurations (the check comes before every per-image loss); when all entries are
  finite it raises exactly the error of the first failing per-image loss, and an
  \<open>AssertionError\<close> it raises then has no message; and when \<open>anchor_target\<close> returns
  \<open>None\<close> it returns \<open>None\<close>, whatever the predictions hold.
\<close>

theorem nonfinite_check:
  assumes "n = num_anchor_generators h" and "0 < n"
  shows "(\<not> (list_all (\<lambda>i. list_all isfinite (cls_score i)) imgs
             \<and> list_all (\<lambda>i. list_all isfinite (bbox_pred i)) imgs) \<longrightarrow>
            (\<exists>msg. msg \<noteq> [] \<and>
               (\<forall>tgts ntp cfg. loss h n imgs (Some (tgts, ntp)) cfg = Inl (AssertionError msg))))
       \<and> (list_all (\<lambda>i. list_all isfinite (cls_score i)) imgs
             \<and> list_all (\<lambda>i. list_all isfinite (bbox_pred i)) imgs \<longrightarrow>
            (\<forall>tgts ntp cfg e. loss h n imgs (Some (tgts, ntp)) cfg = Inl e \<longleftrightarrow>
               multi_apply (\<lambda>t. loss_single (anchors t) (bbox_loss t) ntp cfg) tgts = Inl e)
            \<and> (\<forall>tgts ntp cfg msg. loss h n imgs (Some (tgts, ntp)) cfg = Inl (AssertionError msg)
                 \<longrightarrow> msg = []))
       \<and> (\<forall>cfg. loss h n imgs None cfg = Inr None)"
proof (intro conjI impI allI)
  assume nf: "\<not> (list_all (\<lambda>i. list_all isfinite (cls_score i)) imgs
             \<and> list_all (\<lambda>i. list_all isfinite (bbox_pred i)) imgs)"
  show "\<exists>msg. msg \<noteq> [] \<and>
               (\<forall>tgts ntp cfg. loss h n imgs (Some (tgts, ntp)) cfg = Inl (AssertionError msg))"
  proof (cases "list_all (\<lambda>i. list_all isfinite (cls_score i)) imgs")
    case True
    with nf assms have "\<forall>tgts ntp cfg. loss h n imgs (Some (tgts, ntp)) cfg
        = Inl (AssertionError ''bbox predications become infinite or NaN!'')"
      by (simp add: loss_def)
    then show ?thesis by blast
  next
    case False
    with assms have "\<forall>tgts ntp cfg. loss h n imgs (Some (tgts, ntp)) cfg
        = Inl (AssertionError ''classification scores become infinite or NaN!'')"
      by (simp add: loss_def)
    then show ?thesis by blast
  qed
next
  fix tgts ntp cfg e
  assume fin: "list_all (\<lambda>i. list_all isfinite (cls_score i)) imgs
             \<and> list_all (\<lambda>i. list_all isfinite (bbox_pred i)) imgs"
  show "loss h n imgs (Some (tgts, ntp)) cfg = Inl e \<longleftrightarrow>
               multi_apply (\<lambda>t. loss_single (anchors t) (bbox_loss t) ntp cfg) tgts = Inl e"
    using fin assms by (auto simp: loss_def split: sum.splits prod.splits if_splits)
next
  fix tgts ntp cfg msg
  assume fin: "list_all (\<lambda>i. list_all isfinite (cls_score i)) imgs
             \<and> list_all (\<lambda>i. list_all isfinite (bbox_pred i)) imgs"
    and err: "loss h n imgs (Some (tgts, ntp)) cfg = Inl (AssertionError msg)"
  from fin err assms
  have "multi_apply (\<lambda>t. loss_single (anchors t) (bbox_loss t) ntp cfg) tgts
          = Inl (AssertionError msg)"
    by (auto simp: loss_def split: sum.splits prod.splits if_splits)
  with multi_apply_error_source
    [of "\<lambda>t. loss_single (anchors t) (bbox_loss t) ntp cfg" tgts "AssertionError msg"]
  obtain t :: image_targets
    where "loss_single (anchors t) (bbox_loss t) ntp cfg = Inl (AssertionError msg)"
    by auto
  then show "msg = []" using loss_single_errors by fastforce
next
  fix cfg
  show "loss h n imgs None cfg = Inr None" using assms by (simp add: loss_def)
qed

theorem nonfinite_check_witness:
  "1 = num_anchor_generators balancing_head \<and> (0::nat) < 1
   \<and> \<not> (list_all (\<lambda>i. list_all isfinite (cls_score i)) nan_images
        \<and> list_all (\<lambda>i. list_all isfinite (bbox_pred i)) nan_images)
   \<and> (\<exists>msg. msg \<noteq> [] \<and>
        loss balancing_head 1 nan_images (Some (two_targets, 2)) toy_cfg = Inl (AssertionError msg))
   \<and> list_all (\<lambda>i. list_all isfinite (cls_score i)) finite_images
   \<and> list_all (\<lambda>i. list_all isfinite (bbox_pred i)) finite_images
   \<and> loss balancing_head 1 finite_images (Some (background_targets, 1)) toy_cfg
        = Inl (AssertionError [])"
proof -
  have a: "1 = num_anchor_generators balancing_head" "(0::nat) < 1"
    by (simp_all add: balancing_head_def)
  have nf: "\<not> (list_all (\<lambda>i. list_all isfinite (cls_score i)) nan_images
        \<and> list_all (\<lambda>i. list_all isfinite (bbox_pred i)) nan_images)"
    by (simp add: nan_images_def)
  have f: "list_all (\<lambda>i. list_all isfinite (cls_score i)) finite_images
        \<and> list_all (\<lambda>i. list_all isfinite (bbox_pred i)) finite_images"
    by (simp add: finite_images_def)
  have m: "multi_apply (\<lambda>t. loss_single (anchors t) (bbox_loss t) 1 toy_cfg) background_targets
             = Inl (AssertionError [])"
    by (simp add: background_targets_def toy_cfg_def loss_single_cases topk_loss_cls_neg_def
        topk_def neg_losses num_neg_samples_eq)
  from nonfinite_check [OF a, of nan_images] nf
  have 1: "\<exists>msg. msg \<noteq> [] \<and>
        loss balancing_head 1 nan_images (Some (two_targets, 2)) toy_cfg = Inl (AssertionError msg)"
    by blast
  from nonfinite_check [OF a, of finite_images] f m
  have 2: "loss balancing_head 1 finite_images (Some (background_targets, 1)) toy_cfg
        = Inl (AssertionError [])"
    by blast
  show ?thesis using a nf f 1 2 by blast
qed

theorem nonfinite_iff_counterexample:
  "list_all (\<lambda>i. list_all isfinite (cls_score i)) finite_images
   \<and> list_all (\<lambda>i. list_all isfinite (bbox_pred i)) finite_images
   \<and> loss balancing_head 1 finite_images (Some (background_targets, 1)) toy_cfg
        = Inl (AssertionError [])
   \<and> \<not> list_all (\<lambda>i. list_all isfinite (cls_score i)) nan_images
   \<and> loss balancing_head 1 nan_images None toy_cfg = Inr None"
  by (simp add: finite_images_def nan_images_def loss_def balancing_head_def
      background_targets_def toy_cfg_def loss_single_cases topk_loss_cls_neg_def
      topk_def neg_losses num_neg_samples_eq)

subsection \<open>Sizes derived from the ratio range\<close>

lemma range_up_eq:
  assumes "0 < s"
  shows "range_up a b s = map (\<lambda>i. a + int i * s) [0..<nat ((b - a + s - 1) div s)]"
  using assms
proof (induction a b s rule: range_up.induct)
  case (1 r stop step)
  show ?case
  proof (cases "r < stop")
    case True
    let ?n = "nat ((stop - (r + step) + step - 1) div step)"
    have "0 \<le> (stop - r - 1) div step"
      using True "1.prems" by (simp add: pos_imp_zdiv_nonneg_iff)
    moreover have "(stop - r + step - 1) div step = (stop - r - 1) div step + 1"
      using "1.prems" by (metis add.commute add_diff_eq div_add_self1 less_numeral_extra(3))
    ultimately have n: "nat ((stop - r + step - 1) div step) = Suc ?n"
      by (simp add: nat_add_distrib algebra_simps)
    have "range_up r stop step = r # range_up (r + step) stop step"
      using True "1.prems" by (subst range_up.simps) simp
    also have "\<dots> = r # map (\<lambda>i. r + step + int i * step) [0..<?n]"
      using "1.IH" True "1.prems" by simp
    also have "\<dots> = map (\<lambda>i. r + int i * step) [0..<Suc ?n]"
      by (simp add: map_upt_Suc algebra_simps del: upt_Suc)
    finally show ?thesis by (simp only: n)
  next
    case False
    then have "stop - r + step - 1 < step" by simp
    then have "stop - r + step - 1 \<le> step - 1" by simp
    then have "(stop - r + step - 1) div step \<le> (step - 1) div step"
      using "1.prems" by (intro zdiv_mono1) simp_all
    also have "(step - 1) div step = 0"
      using "1.prems" by (simp add: div_pos_pos_trivial)
    finally have "(stop - r + step - 1) div step \<le> 0" .
    then have "nat ((stop - r + step - 1) div step) = 0" by simp
    moreover have "range_up r stop step = []"
      using False by (subst range_up.simps) simp
    ultimately show ?thesis by simp
  qed
qed


lemma range_inclusive:
  assumes "1 \<le> s" and "a \<le> b"
  shows "py_range a (b + 1) s = Inr (map (\<lambda>i. a + int i * s) [0..<Suc (nat ((b - a) div s))])"
proof -
  have "0 \<le> (b - a) div s" using assms by (simp add: pos_imp_zdiv_nonneg_iff)
  moreover have "(b + 1 - a + s - 1) div s = (b - a) div s + 1"
  proof -
    have "b + 1 - a + s - 1 = (b - a) + s" by simp
    moreover have "((b - a) + s) div s = (b - a) div s + 1"
      using assms by (intro div_add_self2) simp
    ultimately show ?thesis by (simp only:)
  qed
  ultimately have "nat ((b + 1 - a + s - 1) div s) = Suc (nat ((b - a) div s))"
    by (simp add: nat_add_distrib)
  then show ?thesis
    using assms range_up_eq [of s a "b + 1"] by (simp add: py_range_def)
qed

lemma ssd_step_div:
  assumes "3 \<le> n" and "a \<le> b"
  shows "ssd_step a b n = Inr ((b - a) div (int n - 2))"
proof -
  have "0 \<le> real_of_int (b - a) / real_of_int (int n - 2)"
    using assms by simp
  then have "py_int (real_of_int (b - a) / real_of_int (int n - 2))
      = \<lfloor>real_of_int (b - a) / real_of_int (int n - 2)\<rfloor>"
    by (simp only: py_int_def if_True)
  then have "py_int (real_of_int (b - a) / real_of_int (int n - 2)) = (b - a) div (int n - 2)"
    by (simp only: floor_divide_of_int_eq)
  then show ?thesis using assms by (simp add: ssd_step_def)
qed

lemma derive_sizes_walk:
  assumes "3 \<le> num_levels"
    and "int num_levels - 2 \<le> max_percent fmul rng - min_percent fmul rng"
  shows "let step = (max_percent fmul rng - min_percent fmul rng) div (int num_levels - 2);
             n = nat ((max_percent fmul rng - min_percent fmul rng) div step)
         in 1 \<le> step
          \<and> min_percent fmul rng + int n * step \<le> max_percent fmul rng
          \<and> max_percent fmul rng < min_percent fmul rng + int n * step + step
          \<and> derive_sizes fmul input_size rng num_levels =
              Inr (py_int (fmul (real_of_int input_size) (fst rng) / 2)
                     # map (\<lambda>i. py_int (real_of_int
                                (input_size * (min_percent fmul rng + int i * step)) / 100))
                         [0..<Suc n],
                   py_int (fmul (real_of_int input_size) (fst rng))
                     # map (\<lambda>i. py_int (real_of_int
                                (input_size * (min_percent fmul rng + int i * step + step)) / 100))
                         [0..<Suc n])"
proof -
  define a where "a = min_percent fmul rng"
  define b where "b = max_percent fmul rng"
  define d where "d = int num_levels - 2"
  define s where "s = (b - a) div d"
  define n where "n = nat ((b - a) div s)"
  have d: "1 \<le> d" "d \<le> b - a" using assms by (simp_all add: d_def a_def b_def)
  then have ab: "a \<le> b" by simp
  have "d div d \<le> (b - a) div d" using d by (intro zdiv_mono1) simp_all
  then have s: "1 \<le> s" using d by (simp add: s_def)
  have q: "0 \<le> (b - a) div s" using s ab by (simp add: pos_imp_zdiv_nonneg_iff)
  have dm: "(b - a) div s * s + (b - a) mod s = b - a" by (rule div_mult_mod_eq)
  have md: "0 \<le> (b - a) mod s" "(b - a) mod s < s" using s by simp_all
  have "(b - a) div s * s \<le> b - a" using dm md by linarith
  then have lo: "a + int n * s \<le> b" using q by (simp add: n_def)
  have "b - a < (b - a) div s * s + s" using dm md by linarith
  then have hi: "b < a + int n * s + s" using q by (simp add: n_def)
  have st: "ssd_step a b num_levels = Inr s"
    using ssd_step_div [OF assms(1) ab] by (simp add: s_def d_def)
  have rg: "py_range a (b + 1) s = Inr (map (\<lambda>i. a + int i * s) [0..<Suc n])"
    using range_inclusive [OF s ab] by (simp add: n_def)
  have "derive_sizes fmul input_size rng num_levels =
          Inr (py_int (fmul (real_of_int input_size) (fst rng) / 2)
                 # map (\<lambda>i. py_int (real_of_int (input_size * (a + int i * s)) / 100))
                     [0..<Suc n],
               py_int (fmul (real_of_int input_size) (fst rng))
                 # map (\<lambda>i. py_int (real_of_int (input_size * (a + int i * s + s)) / 100))
                     [0..<Suc n])"
    using st rg
    by (simp add: derive_sizes_def Let_def a_def [symmetric] b_def [symmetric]
        py_insert_def comp_def del: upt_Suc)
  then show ?thesis
    using s lo hi unfolding Let_def a_def b_def d_def s_def n_def by simp
qed

text \<open>
  C5. On the ratio path with at least 3 levels and a difference of the two integer
  percentages of at least \<open>num_levels - 2\<close> (so that the step is at least 1; a zero
  step makes \<open>range\<close> raise), the derivation succeeds with
  \<open>step = (max_ratio - min_ratio) div (num_levels - 2)\<close>; it walks
  \<open>r = min_ratio, min_ratio + step, ...\<close> up to the last value not above \<open>max_ratio\<close>,
  emits \<open>int(input_size * r / 100)\<close> and \<open>int(input_size * (r + step) / 100)\<close> for each,
  and puts \<open>int(input_size * min_frac / 2)\<close> and \<open>int(input_size * min_frac)\<close> in front,
  whatever the rounding of the float products is.
\<close>

theorem derive_sizes_algorithm:
  assumes "3 \<le> num_levels"
    and "int num_levels - 2 \<le> max_percent fmul rng - min_percent fmul rng"
  shows "let step = (max_percent fmul rng - min_percent fmul rng) div (int num_levels - 2);
             n = nat ((max_percent fmul rng - min_percent fmul rng) div step)
         in 1 \<le> step
          \<and> min_percent fmul rng + int n * step \<le> max_percent fmul rng
          \<and> max_percent fmul rng < min_percent fmul rng + int n * step + step
          \<and> derive_sizes fmul input_size rng num_levels =
              Inr (py_int (fmul (real_of_int input_size) (fst rng) / 2)
                     # map (\<lambda>i. py_int (real_of_int
                                (input_size * (min_percent fmul rng + int i * step)) / 100))
                         [0..<Suc n],
                   py_int (fmul (real_of_int input_size) (fst rng))
                     # map (\<lambda>i. py_int (real_of_int
                                (input_size * (min_percent fmul rng + int i * step + step)) / 100))
                         [0..<Suc n])"
  using assms by (rule derive_sizes_walk)

theorem derive_sizes_algorithm_witness:
  "(3::nat) \<le> 6
   \<and> int 6 - 2 \<le> max_percent exact_product (1/10, 9/10)
                      - min_percent exact_product (1/10, 9/10)
   \<and> derive_sizes exact_product 300 (1/10, 9/10) 6
       = Inr ([15, 30, 90, 150, 210, 270], [30, 90, 150, 210, 270, 330])"
proof -
  have p: "min_percent exact_product (1/10, 9/10) = 10"
    "max_percent exact_product (1/10, 9/10) = 90"
    by (simp_all add: min_percent_def max_percent_def exact_product_def py_int_def)
  have h: "(3::nat) \<le> 6"
    "int 6 - 2 \<le> max_percent exact_product (1/10, 9/10)
                  - min_percent exact_product (1/10, 9/10)"
    by (simp_all add: p)
  show ?thesis
    using h derive_sizes_algorithm [OF h, of 300]
    by (simp add: p Let_def py_int_def exact_product_def upt_conv_Cons del: upt_Suc)
qed

theorem zero_step_counterexample:
  "(3::nat) \<le> 6 \<and> (10/100 :: real) < 12/100
   \<and> min_percent exact_product (10/100, 12/100) < max_percent exact_product (10/100, 12/100)
   \<and> derive_sizes exact_product 300 (10/100, 12/100) 6 = Inl ValueError"
  by (simp add: derive_sizes_def min_percent_def max_percent_def exact_product_def py_int_def
      ssd_step_def py_range_def)

text \<open>
  C7. With 2 levels the derivation never yields sizes, whatever the input size and the
  ratio range: the step computation divides by \<open>num_levels - 2 = 0\<close> and \<open>int\<close> of the
  quotient raises (\<open>OverflowError\<close>, or \<open>ValueError\<close> when the two percentages are equal).
\<close>

theorem two_levels_raise:
  "derive_sizes fmul input_size rng 2 =
     (if max_percent fmul rng = min_percent fmul rng then Inl ValueError else Inl OverflowError)"
  by (simp add: derive_sizes_def ssd_step_def)

theorem two_levels_raise_witness:
  "derive_sizes exact_product 512 (1/10, 9/10) 2 = Inl OverflowError
   \<and> derive_sizes exact_product 300 (1/5, 1/5) 2 = Inl ValueError"
  using two_levels_raise [of exact_product 512 "(1/10, 9/10)"]
    two_levels_raise [of exact_product 300 "(1/5, 1/5)"]
  by (simp add: min_percent_def max_percent_def exact_product_def py_int_def)

theorem two_levels_counterexample:
  "derive_sizes exact_product 300 (2/10, 9/10) 2 = Inl OverflowError"
  by (simp add: derive_sizes_def ssd_step_def min_percent_def max_percent_def
      exact_product_def py_int_def)







subsection \<open>Base anchors of a level\<close>

lemma ratios_loop_ok:
  "0 \<notin> set rs \<Longrightarrow> ratios_loop acc rs = Inr (acc @ concat (map (\<lambda>r. [1 / r, r]) rs))"
  by (induction rs arbitrary: acc) auto

lemma map_nth_from_1: "map (\<lambda>i. xs ! i) [1..<length xs] = tl xs"
proof (cases xs)
  case Nil
  then show ?thesis by simp
next
  case (Cons x ys)
  have "[1..<length (x # ys)] = map Suc [0..<length ys]"
    by (simp add: map_Suc_upt del: upt_Suc)
  then have "map (\<lambda>i. (x # ys) ! i) [1..<length (x # ys)] = map (\<lambda>i. ys ! i) [0..<length ys]"
    by (simp add: comp_def del: upt_Suc)
  then show ?thesis using Cons by (simp only: map_nth list.sel)
qed

lemma reorder_indices:
  assumes "0 < n"
  shows "py_insert 1 n [0..<n] = 0 # n # [1..<n]"
proof -
  have "take 1 [0..<n] = [0]" using assms by (simp add: take_upt)
  moreover have "drop 1 [0..<n] = [1..<n]" by (simp add: drop_upt)
  ultimately show ?thesis by (simp add: py_insert_def)
qed

lemma select_reordered:
  assumes "length A = n" and "length B = n" and "0 < n"
  shows "index_select (A @ B) (0 # n # [1..<n]) = Inr (A ! 0 # B ! 0 # tl A)"
proof -
  have ok: "list_all (\<lambda>i. i < length (A @ B)) (0 # n # [1..<n])"
    using assms by (auto simp: list_all_iff)
  have "map (\<lambda>i. (A @ B) ! i) [1..<n] = map (\<lambda>i. A ! i) [1..<n]"
    using assms by (intro map_cong) (auto simp: nth_append)
  also have "\<dots> = tl A" using map_nth_from_1 [of A] assms(1) by simp
  finally have rest: "map (\<lambda>i. (A @ B) ! i) [1..<n] = tl A" .
  have first: "(A @ B) ! 0 = A ! 0" "(A @ B) ! n = B ! 0"
    using assms by (simp_all add: nth_append)
  have "index_select (A @ B) (0 # n # [1..<n])
      = Inr (map (\<lambda>i. (A @ B) ! i) (0 # n # [1..<n]))"
    using ok by (simp only: index_select_def if_True)
  also have "map (\<lambda>i. (A @ B) ! i) (0 # n # [1..<n]) = A ! 0 # B ! 0 # tl A"
    by (simp only: list.map rest first)
  finally show ?thesis .
qed

text \<open>
  C2. For a level on the ratio path with two scales and no zero ratio, the ratio list
  is \<open>[1, 1/r_1, r_1, ...]\<close> and the cross product holds \<open>2 * len(ratios)\<close> anchors,
  the one of the second scale and ratio 1 at index \<open>len(ratios)\<close>. The level's base
  anchors are the cross product's entries at the indices \<open>0, len(ratios), 1, ...,
  len(ratios) - 1\<close>: the anchors of the first scale, with the anchor of the second scale
  and ratio 1 put at index 1 (the other anchors of the second scale are dropped). So
  the anchor at index 1 has ratio 1 and the second scale, and the sequence has length
  \<open>2 * len(anchor_ratios) + 2\<close>, the count of line 40.
\<close>

theorem level_base_anchors_order:
  assumes "length scales = 2" and "0 \<notin> set rs"
  shows "\<exists>ratios bas. level_ratios rs = Inr ratios
      \<and> ratios = 1 # concat (map (\<lambda>r. [1 / r, r]) rs)
      \<and> length (gen_base_anchors b scales ratios) = 2 * length ratios
      \<and> gen_base_anchors b scales ratios ! length ratios = BaseAnchor b (scales ! 1) 1
      \<and> level_base_anchors b scales rs = Inr bas
      \<and> bas = map (\<lambda>i. gen_base_anchors b scales ratios ! i)
                 (0 # length ratios # [1..<length ratios])
      \<and> bas = BaseAnchor b (scales ! 0) 1 # BaseAnchor b (scales ! 1) 1
                # map (BaseAnchor b (scales ! 0)) (tl ratios)
      \<and> bas ! 1 = BaseAnchor b (scales ! 1) 1
      \<and> length bas = 2 * length rs + 2
      \<and> num_anchors [] [] [rs] = Inr [length bas]"
proof -
  obtain s0 s1 where sc: "scales = [s0, s1]"
    using assms(1) by (auto simp: numeral_2_eq_2 length_Suc_conv)
  define ratios where "ratios = 1 # concat (map (\<lambda>r. [1 / r, r]) rs)"
  define n where "n = length ratios"
  define A where "A = map (BaseAnchor b s0) ratios"
  define B where "B = map (BaseAnchor b s1) ratios"
  define bas where "bas = A ! 0 # B ! 0 # tl A"
  have lr: "level_ratios rs = Inr ratios"
    using ratios_loop_ok [OF assms(2), of "[1]"] by (simp add: level_ratios_def ratios_def)
  have len_concat: "length (concat (map (\<lambda>r. [1 / r, r]) rs)) = 2 * length rs"
    by (induction rs) simp_all
  have n: "n = 2 * length rs + 1" "0 < n"
    by (simp_all add: n_def ratios_def len_concat)
  have g: "gen_base_anchors b scales ratios = A @ B"
    by (simp add: gen_base_anchors_def sc A_def B_def)
  have lenAB: "length A = n" "length B = n" by (simp_all add: A_def B_def n_def)
  have r0: "ratios ! 0 = 1" by (simp add: ratios_def)
  have A0: "A ! 0 = BaseAnchor b s0 1" and B0: "B ! 0 = BaseAnchor b s1 1"
    using n(2) r0 by (simp_all add: A_def B_def n_def)
  have tlA: "tl A = map (BaseAnchor b s0) (tl ratios)" by (simp add: A_def map_tl)
  have sel: "index_select (A @ B) (0 # n # [1..<n]) = Inr bas"
    unfolding bas_def by (rule select_reordered [OF lenAB n(2)])
  have lb: "level_base_anchors b scales rs = Inr bas"
    using sel reorder_indices [OF n(2)]
    by (simp add: level_base_anchors_def lr g Let_def n_def [symmetric] del: upt_Suc)
  have as_sel: "bas = map (\<lambda>i. gen_base_anchors b scales ratios ! i) (0 # n # [1..<n])"
    using sel lenAB n(2) by (auto simp: index_select_def g list_all_iff split: if_splits)
  have at_n: "gen_base_anchors b scales ratios ! n = BaseAnchor b (scales ! 1) 1"
    unfolding g using lenAB B0 by (simp add: nth_append sc)
  have len_g: "length (gen_base_anchors b scales ratios) = 2 * n"
    using lenAB by (simp add: g)
  have expl: "bas = BaseAnchor b (scales ! 0) 1 # BaseAnchor b (scales ! 1) 1
                # map (BaseAnchor b (scales ! 0)) (tl ratios)"
    by (simp add: bas_def A0 B0 tlA sc)
  have len_bas: "length bas = 2 * length rs + 2"
    using n(1) by (simp add: expl n_def)
  have na: "num_anchors [] [] [rs] = Inr [length bas]"
    by (simp add: num_anchors_def len_bas)
  have b1: "bas ! 1 = BaseAnchor b (scales ! 1) 1" by (simp add: expl)
  show ?thesis
  proof (intro exI [of _ ratios] exI [of _ bas] conjI)
    show "level_ratios rs = Inr ratios" by (rule lr)
    show "ratios = 1 # concat (map (\<lambda>r. [1 / r, r]) rs)" by (rule ratios_def)
    show "length (gen_base_anchors b scales ratios) = 2 * length ratios"
      using len_g by (simp only: n_def)
    show "gen_base_anchors b scales ratios ! length ratios = BaseAnchor b (scales ! 1) 1"
      using at_n by (simp only: n_def)
    show "level_base_anchors b scales rs = Inr bas" by (rule lb)
    show "bas = map (\<lambda>i. gen_base_anchors b scales ratios ! i)
                 (0 # length ratios # [1..<length ratios])"
      using as_sel by (simp only: n_def)
    show "bas = BaseAnchor b (scales ! 0) 1 # BaseAnchor b (scales ! 1) 1
                # map (BaseAnchor b (scales ! 0)) (tl ratios)" by (rule expl)
    show "bas ! 1 = BaseAnchor b (scales ! 1) 1" by (rule b1)
    show "length bas = 2 * length rs + 2" by (rule len_bas)
    show "num_anchors [] [] [rs] = Inr [length bas]" by (rule na)
  qed
qed

theorem level_base_anchors_order_witness:
  "length [1, 2 :: real] = 2 \<and> 0 \<notin> set [2, 3 :: real]
   \<and> level_base_anchors 30 [1, 2 :: real] [2, 3]
       = Inr [BaseAnchor 30 1 1, BaseAnchor 30 2 1, BaseAnchor 30 1 (1/2), BaseAnchor 30 1 2,
              BaseAnchor 30 1 (1/3), BaseAnchor 30 1 3]"
proof -
  have h: "length [1, 2 :: real] = 2" "0 \<notin> set [2, 3 :: real]" by simp_all
  have "level_base_anchors 30 [1, 2 :: real] [2, 3]
       = Inr [BaseAnchor 30 1 1, BaseAnchor 30 2 1, BaseAnchor 30 1 (1/2), BaseAnchor 30 1 2,
              BaseAnchor 30 1 (1/3), BaseAnchor 30 1 3]"
    using level_base_anchors_order [OF h, of 30]
  proof (elim exE conjE)
    fix ratios :: "real list" and bas :: "real base_anchor list"
    assume r: "ratios = 1 # concat (map (\<lambda>r. [1 / r, r]) [2, 3])"
      and l: "level_base_anchors 30 [1, 2 :: real] [2, 3] = Inr bas"
      and e: "bas = BaseAnchor 30 ([1, 2] ! 0) 1 # BaseAnchor 30 ([1, 2] ! 1) 1
                # map (BaseAnchor 30 ([1, 2] ! 0)) (tl ratios)"
    have "ratios = [1, 1/2, 2, 1/3, 3]" using r by simp
    then have "bas = [BaseAnchor 30 1 1, BaseAnchor 30 2 1, BaseAnchor 30 1 (1/2),
        BaseAnchor 30 1 2, BaseAnchor 30 1 (1/3), BaseAnchor 30 1 3]"
      using e by simp
    then show ?thesis using l by simp
  qed
  with h show ?thesis by simp
qed

theorem move_last_counterexample:
  "level_base_anchors 30 [1, 2 :: real] [2]
     = Inr [BaseAnchor 30 1 1, BaseAnchor 30 2 1, BaseAnchor 30 1 (1/2), BaseAnchor 30 1 2]
   \<and> level_ratios [2] = Inr [1, 1/2, 2]
   \<and> last (gen_base_anchors 30 [1, 2 :: real] [1, 1/2, 2]) = BaseAnchor 30 2 2
   \<and> spec_move_last_to_index1 (gen_base_anchors 30 [1, 2 :: real] [1, 1/2, 2])
       = [BaseAnchor 30 1 1, BaseAnchor 30 2 2, BaseAnchor 30 1 (1/2), BaseAnchor 30 1 2,
          BaseAnchor 30 2 1, BaseAnchor 30 2 (1/2)]
   \<and> level_base_anchors 30 [1, 2 :: real] [2]
       \<noteq> Inr (spec_move_last_to_index1 (gen_base_anchors 30 [1, 2 :: real] [1, 1/2, 2]))"
  by (simp add: level_base_anchors_def level_ratios_def gen_base_anchors_def py_insert_def
      index_select_def spec_move_last_to_index1_def Let_def)

subsection \<open>Explicit heights and widths\<close>

lemma outer_lengths_checked:
  assumes "length anchor_heights \<noteq> 0" and "length anchor_heights \<noteq> length anchor_widths"
  shows "init_explicit gen in_channels anchor_strides anchor_heights anchor_widths anchor_ratios
           = Inl (AssertionError [])"
  using assms by (simp add: init_explicit_def num_anchors_def)

lemma stale_index_run:
  "init_explicit gen [512, 1024] [8, 16] [[30, 60], [60, 120]] [[30], [60, 120]] ars =
     (case gen [30] [30, 60] of
        Inl e \<Rightarrow> Inl e
      | Inr g0 \<Rightarrow>
          (case gen [60, 120] [60, 120] of
             Inl e \<Rightarrow> Inl e
           | Inr g1 \<Rightarrow> Inr (Some [g0, g1])))"
  by (simp add: init_explicit_def num_anchors_def upt_conv_Cons split: sum.splits)

text \<open>
  C9. On the explicit path, heights and widths with different numbers of levels make
  the construction raise an \<open>AssertionError\<close>. A level whose width list and height list
  differ in length is not caught by the head: with two levels the assertion of line 85
  compares level 1 on every pass, so for widths \<open>[[30], [60, 120]]\<close> and heights
  \<open>[[30, 60], [60, 120]]\<close> it holds, and the construction ends as the calls of
  \<open>AnchorGenerator\<close> do; with a generator that zips widths and heights it succeeds,
  with one base anchor at level 0 where \<open>num_anchors\<close> says 2.
\<close>

theorem level_check_uses_stale_index:
  "(length anchor_heights \<noteq> 0 \<and> length anchor_heights \<noteq> length anchor_widths \<longrightarrow>
      init_explicit gen in_channels anchor_strides anchor_heights anchor_widths anchor_ratios
        = Inl (AssertionError []))
   \<and> init_explicit gen [512, 1024] [8, 16] [[30, 60], [60, 120]] [[30], [60, 120]] ars =
       (case gen [30] [30, 60] of
          Inl e \<Rightarrow> Inl e
        | Inr g0 \<Rightarrow>
            (case gen [60, 120] [60, 120] of
               Inl e \<Rightarrow> Inl e
             | Inr g1 \<Rightarrow> Inr (Some [g0, g1])))
   \<and> init_explicit zip_generator [512, 1024] [8, 16] [[30, 60], [60, 120]] [[30], [60, 120]] ars
       = Inr (Some [[(30, 30)], [(60, 60), (120, 120)]])
   \<and> num_anchors [[30, 60], [60, 120]] [[30], [60, 120]] ars = Inr [2, 2]"
proof (intro conjI impI)
  assume "length anchor_heights \<noteq> 0 \<and> length anchor_heights \<noteq> length anchor_widths"
  then show "init_explicit gen in_channels anchor_strides anchor_heights anchor_widths
      anchor_ratios = Inl (AssertionError [])"
    using outer_lengths_checked by blast
next
  show "init_explicit gen [512, 1024] [8, 16] [[30, 60], [60, 120]] [[30], [60, 120]] ars =
       (case gen [30] [30, 60] of
          Inl e \<Rightarrow> Inl e
        | Inr g0 \<Rightarrow>
            (case gen [60, 120] [60, 120] of
               Inl e \<Rightarrow> Inl e
             | Inr g1 \<Rightarrow> Inr (Some [g0, g1])))"
    by (rule stale_index_run)
next
  show "init_explicit zip_generator [512, 1024] [8, 16] [[30, 60], [60, 120]]
      [[30], [60, 120]] ars = Inr (Some [[(30, 30)], [(60, 60), (120, 120)]])"
    by (simp add: stale_index_run zip_generator_def)
next
  show "num_anchors [[30, 60], [60, 120]] [[30], [60, 120]] ars = Inr [2, 2]"
    by (simp add: num_anchors_def)
qed

theorem level_check_uses_stale_index_witness:
  "length [[30, 60], [60, 120 :: real]] \<noteq> 0
   \<and> length [[30, 60], [60, 120 :: real]] \<noteq> length [[30, 60 :: real]]
   \<and> init_explicit zip_generator [512, 1024] [8, 16] [[30, 60], [60, 120]] [[30, 60]] []
       = Inl (AssertionError [])
   \<and> init_explicit zip_generator [512, 1024] [8, 16] [[30, 60], [60, 120]] [[30], [60, 120]] []
       = Inr (Some [[(30, 30)], [(60, 60), (120, 120)]])"
proof -
  have h: "length [[30, 60], [60, 120 :: real]] \<noteq> 0
      \<and> length [[30, 60], [60, 120 :: real]] \<noteq> length [[30, 60 :: real]]"
    by simp
  from level_check_uses_stale_index
    [where anchor_heights = "[[30, 60], [60, 120]]" and anchor_widths = "[[30, 60]]"
       and gen = zip_generator and in_channels = "[512, 1024]" and anchor_strides = "[8, 16]"
       and anchor_ratios = "[]" and ars = "[]"]
  have "(length [[30, 60], [60, 120 :: real]] \<noteq> 0
      \<and> length [[30, 60], [60, 120 :: real]] \<noteq> length [[30, 60 :: real]] \<longrightarrow>
     init_explicit zip_generator [512, 1024] [8, 16] [[30, 60], [60, 120]] [[30, 60]] []
       = Inl (AssertionError []))"
    and "init_explicit zip_generator [512, 1024] [8, 16] [[30, 60], [60, 120]]
       [[30], [60, 120]] [] = Inr (Some [[(30, 30)], [(60, 60), (120, 120)]])"
    by blast+
  with h show ?thesis by blast
qed

end
